theory Spec2Isabelle
  imports Main
begin

section \<open>The central service of the DNS control plane (moniker/central/service.py)\<close>

text \<open>
  The service methods are embedded as functions over an explicit world state: the
  storage tables, the calls made to the backend driver and the notifications
  emitted. A method returns its result (or the exception it raises, as \<open>Inl\<close>)
  together with the world it leaves behind, so that what has and has not been
  written at the moment of a failure is part of the model.
\<close>

subsection \<open>Values and errors\<close>

text \<open>Python values whose truthiness the code tests (the results of the ping calls).\<close>

datatype pyval =
    PNone
  | PBool bool
  | PInt int
  | PStr string
  | PDict "(string \<times> pyval) list"

text \<open>Python's truth value of an object: None, False, 0, '' and {} are falsy.\<close>

fun truthy :: "pyval \<Rightarrow> bool" where
  "truthy PNone = False"
| "truthy (PBool b) = b"
| "truthy (PInt i) = (i \<noteq> 0)"
| "truthy (PStr s) = (s \<noteq> [])"
| "truthy (PDict kvs) = (kvs \<noteq> [])"

text \<open>
  The exceptions of moniker.exceptions that the service meets, Python's KeyError,
  the exceptions raised by the backend driver and by a handler, and
  \<open>Uncaught\<close> for a BaseException that is not an Exception.
\<close>

datatype error =
    Forbidden
  | BadRequest
  | NoServersConfigured
  | DomainNotFound
  | RecordNotFound
  | DuplicateDomain
  | KeyError string
  | BackendError string
  | HandlerError string
  | Uncaught string

record request_context =
  ctx_tenant_id :: string
  ctx_is_admin :: bool

subsection \<open>Entities\<close>

record domain =
  d_id :: nat
  d_name :: string
  d_email :: "string option"
  d_tenant_id :: "string option"
  d_parent_domain_id :: "nat option"

record rec =
  r_id :: nat
  r_domain_id :: nat
  r_name :: string
  r_type :: "string option"
  r_data :: "string option"

record server =
  s_id :: nat
  s_name :: string

text \<open>
  The \<open>values\<close> dictionaries of the domain and record methods: a key that is
  present is \<open>Some\<close>.
\<close>

record domain_values =
  v_name :: "string option"
  v_email :: "string option"
  v_tenant_id :: "string option"
  v_parent_domain_id :: "nat option"

record record_values =
  rv_name :: "string option"
  rv_type :: "string option"
  rv_data :: "string option"

text \<open>The \<open>criterion\<close> dictionary of exact-match filters passed to Storage.\<close>

record criterion =
  c_name :: "string option"
  c_tenant_id :: "string option"

definition empty_criterion :: criterion where
  "empty_criterion = \<lparr>c_name = None, c_tenant_id = None\<rparr>"

text \<open>The \<open>target\<close> dictionary a policy rule is evaluated against.\<close>

record target =
  t_tenant_id :: "string option"
  t_domain_id :: "nat option"
  t_domain_name :: "string option"
  t_record_id :: "nat option"
  t_record_name :: "string option"

definition no_target :: target where
  "no_target = \<lparr>t_tenant_id = None, t_domain_id = None, t_domain_name = None,
                 t_record_id = None, t_record_name = None\<rparr>"

subsection \<open>The world: storage tables, backend calls, notifications\<close>

datatype backend_call =
    BCreateDomain domain
  | BUpdateDomain domain
  | BDeleteDomain domain
  | BCreateRecord domain rec
  | BUpdateRecord domain rec
  | BDeleteRecord domain rec

datatype payload = PayDomain domain | PayRecord rec

record world =
  domains :: "domain list"
  recs :: "rec list"
  servers :: "server list"
  next_id :: nat
  backend_calls :: "backend_call list"
  notifications :: "(string \<times> payload) list"

text \<open>
  What a call of a ping endpoint does: it returns a Python value, it raises an
  Exception (with the text \<open>str(e)\<close>), or it raises a BaseException that
  is not an Exception (KeyboardInterrupt, SystemExit, GeneratorExit), which an
  \<open>except Exception\<close> clause does not catch.
\<close>

datatype ping_outcome =
    Returned pyval
  | RaisedException string
  | RaisedBaseException string

text \<open>
  The collaborators and the configuration the service is constructed with: the
  configured host and blacklist patterns, Python's \<open>re.search\<close> (pattern,
  subject), the policy engine's decision, whether a call to the backend driver
  raises (\<open>Some\<close> the exception's text), and the two ping endpoints.
\<close>

record env =
  host :: string
  domain_name_blacklist :: "string list"
  re_search :: "string \<Rightarrow> string \<Rightarrow> bool"
  policy_allows :: "string \<Rightarrow> request_context \<Rightarrow> target \<Rightarrow> bool"
  backend_raises :: "backend_call \<Rightarrow> string option"
  backend_ping :: "request_context \<Rightarrow> ping_outcome"
  storage_ping :: "request_context \<Rightarrow> ping_outcome"

subsection \<open>Storage\<close>

definition matches :: "criterion \<Rightarrow> domain \<Rightarrow> bool" where
  "matches c d \<longleftrightarrow>
     (case c_name c of None \<Rightarrow> True | Some n \<Rightarrow> d_name d = n) \<and>
     (case c_tenant_id c of None \<Rightarrow> True | Some t \<Rightarrow> d_tenant_id d = Some t)"

text \<open>
  Modelled from the spec: the storage module (moniker.storage) is not part of the
  sources at hand. Per the specification it offers per-entity create, get,
  get-list by criterion, update and delete; a single-item lookup that matches no
  row fails with the entity's NotFound error; the criterion is a mapping of
  exact-match filters; domain names are unique.
\<close>

definition storage_get_domain :: "world \<Rightarrow> nat \<Rightarrow> error + domain" where
  "storage_get_domain st domain_id =
     (case find (\<lambda>d. d_id d = domain_id) (domains st) of
        None \<Rightarrow> Inl DomainNotFound
      | Some d \<Rightarrow> Inr d)"

definition storage_find_domain :: "world \<Rightarrow> criterion \<Rightarrow> error + domain" where
  "storage_find_domain st c =
     (case find (matches c) (domains st) of
        None \<Rightarrow> Inl DomainNotFound
      | Some d \<Rightarrow> Inr d)"

definition storage_get_domains :: "world \<Rightarrow> criterion \<Rightarrow> domain list" where
  "storage_get_domains st c = filter (matches c) (domains st)"

definition storage_get_servers :: "world \<Rightarrow> server list" where
  "storage_get_servers st = servers st"

definition storage_create_domain :: "world \<Rightarrow> domain_values \<Rightarrow> (error + domain) \<times> world" where
  "storage_create_domain st vals =
     (case v_name vals of
        None \<Rightarrow> (Inl (KeyError ''name''), st)
      | Some n \<Rightarrow>
          if n \<in> set (map d_name (domains st)) then (Inl DuplicateDomain, st)
          else
            let d = \<lparr>d_id = next_id st, d_name = n, d_email = v_email vals,
                     d_tenant_id = v_tenant_id vals,
                     d_parent_domain_id = v_parent_domain_id vals\<rparr>
            in (Inr d, st\<lparr>domains := domains st @ [d], next_id := Suc (next_id st)\<rparr>))"

definition apply_domain_values :: "domain_values \<Rightarrow> domain \<Rightarrow> domain" where
  "apply_domain_values vals d =
     d\<lparr>d_name := (case v_name vals of None \<Rightarrow> d_name d | Some n \<Rightarrow> n),
       d_email := (case v_email vals of None \<Rightarrow> d_email d | Some e \<Rightarrow> Some e),
       d_tenant_id := (case v_tenant_id vals of None \<Rightarrow> d_tenant_id d | Some t \<Rightarrow> Some t),
       d_parent_domain_id :=
         (case v_parent_domain_id vals of None \<Rightarrow> d_parent_domain_id d | Some p \<Rightarrow> Some p)\<rparr>"

definition storage_update_domain ::
  "world \<Rightarrow> nat \<Rightarrow> domain_values \<Rightarrow> (error + domain) \<times> world" where
  "storage_update_domain st domain_id vals =
     (case storage_get_domain st domain_id of
        Inl e \<Rightarrow> (Inl e, st)
      | Inr d \<Rightarrow>
          let d' = apply_domain_values vals d
          in (Inr d',
              st\<lparr>domains := map (\<lambda>x. if d_id x = domain_id then d' else x) (domains st)\<rparr>))"

definition storage_get_record :: "world \<Rightarrow> nat \<Rightarrow> error + rec" where
  "storage_get_record st record_id =
     (case find (\<lambda>r. r_id r = record_id) (recs st) of
        None \<Rightarrow> Inl RecordNotFound
      | Some r \<Rightarrow> Inr r)"

definition storage_create_record ::
  "world \<Rightarrow> nat \<Rightarrow> record_values \<Rightarrow> (error + rec) \<times> world" where
  "storage_create_record st domain_id vals =
     (case rv_name vals of
        None \<Rightarrow> (Inl (KeyError ''name''), st)
      | Some n \<Rightarrow>
          let r = \<lparr>r_id = next_id st, r_domain_id = domain_id, r_name = n,
                   r_type = rv_type vals, r_data = rv_data vals\<rparr>
          in (Inr r, st\<lparr>recs := recs st @ [r], next_id := Suc (next_id st)\<rparr>))"

definition apply_record_values :: "record_values \<Rightarrow> rec \<Rightarrow> rec" where
  "apply_record_values vals r =
     r\<lparr>r_name := (case rv_name vals of None \<Rightarrow> r_name r | Some n \<Rightarrow> n),
       r_type := (case rv_type vals of None \<Rightarrow> r_type r | Some t \<Rightarrow> Some t),
       r_data := (case rv_data vals of None \<Rightarrow> r_data r | Some x \<Rightarrow> Some x)\<rparr>"

definition storage_update_record ::
  "world \<Rightarrow> nat \<Rightarrow> record_values \<Rightarrow> (error + rec) \<times> world" where
  "storage_update_record st record_id vals =
     (case storage_get_record st record_id of
        Inl e \<Rightarrow> (Inl e, st)
      | Inr r \<Rightarrow>
          let r' = apply_record_values vals r
          in (Inr r',
              st\<lparr>recs := map (\<lambda>x. if r_id x = record_id then r' else x) (recs st)\<rparr>))"

definition storage_delete_record :: "world \<Rightarrow> nat \<Rightarrow> (error + rec) \<times> world" where
  "storage_delete_record st record_id =
     (case storage_get_record st record_id of
        Inl e \<Rightarrow> (Inl e, st)
      | Inr r \<Rightarrow> (Inr r, st\<lparr>recs := filter (\<lambda>x. r_id x \<noteq> record_id) (recs st)\<rparr>))"

subsection \<open>Policy, backend driver and notifier\<close>

text \<open>
  Modelled from the spec: \<open>policy.check(rule, context, target)\<close> either
  authorises or fails with Forbidden; the failure propagates to the caller of the
  whole operation.
\<close>

definition policy_check :: "env \<Rightarrow> string \<Rightarrow> request_context \<Rightarrow> target \<Rightarrow> error + unit" where
  "policy_check env rule ctx tgt =
     (if policy_allows env rule ctx tgt then Inr () else Inl Forbidden)"

text \<open>
  A call to the backend driver is recorded in the world; the driver may raise, and
  the exception then leaves the world as it is at that moment.
\<close>

definition backend_call :: "env \<Rightarrow> backend_call \<Rightarrow> world \<Rightarrow> (error + unit) \<times> world" where
  "backend_call env c st =
     (let st' = st\<lparr>backend_calls := backend_calls st @ [c]\<rparr>
      in case backend_raises env c of
           Some msg \<Rightarrow> (Inl (BackendError msg), st')
         | None \<Rightarrow> (Inr (), st'))"

text \<open>Modelled from the spec: \<open>utils.notify\<close> emits a notification of the given event type.\<close>

definition notify :: "string \<Rightarrow> payload \<Rightarrow> world \<Rightarrow> world" where
  "notify event_type p st = st\<lparr>notifications := notifications st @ [(event_type, p)]\<rparr>"

subsection \<open>Diagnostics: ping\<close>

record ping_result =
  pr_host :: string
  pr_status :: bool
  pr_backend :: pyval
  pr_storage :: pyval

definition failed_status :: "string \<Rightarrow> pyval" where
  "failed_status msg = PDict [(''status'', PBool False), (''message'', PStr msg)]"

text \<open>
  One block \<open>try: status = endpoint.ping(context)\<close>,
  \<open>except Exception, e: status = {'status': False, 'message': str(e)}\<close>:
  an Exception is turned into a status, any other BaseException leaves ping.
\<close>

fun try_ping :: "ping_outcome \<Rightarrow> error + pyval" where
  "try_ping (Returned v) = Inr v"
| "try_ping (RaisedException e) = Inr (failed_status e)"
| "try_ping (RaisedBaseException m) = Inl (Uncaught m)"

definition ping :: "env \<Rightarrow> request_context \<Rightarrow> error + ping_result" where
  "ping env ctx =
     (case policy_check env ''diagnostics_ping'' ctx no_target of
        Inl e \<Rightarrow> Inl e
      | Inr _ \<Rightarrow>
      case try_ping (backend_ping env ctx) of
        Inl e \<Rightarrow> Inl e
      | Inr backend_status \<Rightarrow>
      case try_ping (storage_ping env ctx) of
        Inl e \<Rightarrow> Inl e
      | Inr storage_status \<Rightarrow>
      let status = (if truthy backend_status \<and> truthy storage_status then True else False)
      in Inr \<lparr>pr_host = host env, pr_status = status,
              pr_backend = backend_status, pr_storage = storage_status\<rparr>)"

subsection \<open>Strings: split, join, endswith\<close>

text \<open>Python's \<open>s.split(sep)\<close> for a one-character separator: empty pieces are kept.\<close>

fun split :: "char \<Rightarrow> string \<Rightarrow> string list" where
  "split sep [] = [[]]"
| "split sep (c # cs) =
     (if c = sep then [] # split sep cs
      else (case split sep cs of
              [] \<Rightarrow> [[c]]
            | w # ws \<Rightarrow> (c # w) # ws))"

text \<open>Python's \<open>sep.join(xs)\<close>.\<close>

fun join :: "string \<Rightarrow> string list \<Rightarrow> string" where
  "join sep [] = []"
| "join sep [x] = x"
| "join sep (x # y # ys) = x @ sep @ join sep (y # ys)"

text \<open>Python's \<open>s.endswith(suffix)\<close>.\<close>

definition endswith :: "string \<Rightarrow> string \<Rightarrow> bool" where
  "endswith s suf \<longleftrightarrow> length suf \<le> length s \<and> drop (length s - length suf) s = suf"

subsection \<open>Blacklist and subdomain resolution\<close>

text \<open>
  \<open>_is_blacklisted_domain_name\<close> returns the first configured pattern that
  \<open>re.search\<close> finds in the name, and False when none does.
\<close>

fun blacklist_loop :: "env \<Rightarrow> string list \<Rightarrow> string \<Rightarrow> pyval" where
  "blacklist_loop env [] domain_name = PBool False"
| "blacklist_loop env (blacklist # blacklists) domain_name =
     (if re_search env blacklist domain_name then PStr blacklist
      else blacklist_loop env blacklists domain_name)"

definition is_blacklisted_domain_name :: "env \<Rightarrow> request_context \<Rightarrow> string \<Rightarrow> pyval" where
  "is_blacklisted_domain_name env ctx domain_name =
     blacklist_loop env (domain_name_blacklist env) domain_name"

text \<open>
  The while loop of \<open>_is_subdomain\<close>: DomainNotFound moves on to the next
  offset, any other exception of the lookup propagates, a hit is returned at once.
  The result \<open>None\<close> stands for the False returned when the labels are used up.
\<close>

function is_subdomain_loop :: "world \<Rightarrow> string list \<Rightarrow> nat \<Rightarrow> error + domain option" where
  "is_subdomain_loop st labels i =
     (if i < length labels then
        (case storage_find_domain st (empty_criterion\<lparr>c_name := Some (join ''.'' (drop i labels))\<rparr>) of
           Inl DomainNotFound \<Rightarrow> is_subdomain_loop st labels (i + 1)
         | Inl e \<Rightarrow> Inl e
         | Inr d \<Rightarrow> Inr (Some d))
      else Inr None)"
  by pat_completeness auto
termination
  by (relation "measure (\<lambda>(st, labels, i). length labels - i)") auto

declare is_subdomain_loop.simps [simp del]

definition is_subdomain :: "world \<Rightarrow> request_context \<Rightarrow> string \<Rightarrow> error + domain option" where
  "is_subdomain st ctx domain_name =
     (let labels = split CHR ''.'' domain_name in is_subdomain_loop st labels 1)"

subsection \<open>Domain methods\<close>

definition create_domain ::
  "env \<Rightarrow> request_context \<Rightarrow> domain_values \<Rightarrow> world \<Rightarrow> (error + domain) \<times> world" where
  "create_domain env ctx vals0 st =
     (let vals = vals0\<lparr>v_tenant_id := Some (ctx_tenant_id ctx)\<rparr> in
      case v_name vals of
        None \<Rightarrow> (Inl (KeyError ''name''), st)
      | Some name \<Rightarrow>
      let tgt = no_target\<lparr>t_tenant_id := v_tenant_id vals, t_domain_name := Some name\<rparr> in
      case policy_check env ''create_domain'' ctx tgt of
        Inl e \<Rightarrow> (Inl e, st)
      | Inr _ \<Rightarrow>
      case (if truthy (is_blacklisted_domain_name env ctx name)
            then policy_check env ''use_blacklisted_domain'' ctx no_target
            else Inr ()) of
        Inl e \<Rightarrow> (Inl e, st)
      | Inr _ \<Rightarrow>
      case is_subdomain st ctx name of
        Inl e \<Rightarrow> (Inl e, st)
      | Inr parent_domain \<Rightarrow>
      case (case parent_domain of
              None \<Rightarrow> Inr vals
            | Some p \<Rightarrow>
                if d_tenant_id p = v_tenant_id vals
                then Inr (vals\<lparr>v_parent_domain_id := Some (d_id p)\<rparr>)
                else Inl Forbidden) of
        Inl e \<Rightarrow> (Inl e, st)
      | Inr vals' \<Rightarrow>
      let srvs = storage_get_servers st in
      if length srvs = 0 then (Inl NoServersConfigured, st)
      else
      case storage_create_domain st vals' of
        (Inl e, st1) \<Rightarrow> (Inl e, st1)
      | (Inr d, st1) \<Rightarrow>
      case backend_call env (BCreateDomain d) st1 of
        (Inl e, st2) \<Rightarrow> (Inl e, st2)
      | (Inr _, st2) \<Rightarrow> (Inr d, notify ''domain.create'' (PayDomain d) st2))"

definition get_domains ::
  "env \<Rightarrow> request_context \<Rightarrow> criterion option \<Rightarrow> world \<Rightarrow> (error + domain list) \<times> world" where
  "get_domains env ctx criterion st =
     (let tgt = no_target\<lparr>t_tenant_id := Some (ctx_tenant_id ctx)\<rparr> in
      case policy_check env ''get_domains'' ctx tgt of
        Inl e \<Rightarrow> (Inl e, st)
      | Inr _ \<Rightarrow>
      let criterion1 = (case criterion of None \<Rightarrow> empty_criterion | Some c \<Rightarrow> c);
          criterion2 = (if \<not> ctx_is_admin ctx
                        then criterion1\<lparr>c_tenant_id := Some (ctx_tenant_id ctx)\<rparr>
                        else criterion1)
      in (Inr (storage_get_domains st criterion2), st))"

definition domain_target :: "nat \<Rightarrow> domain \<Rightarrow> target" where
  "domain_target domain_id d =
     no_target\<lparr>t_domain_id := Some domain_id, t_domain_name := Some (d_name d),
               t_tenant_id := d_tenant_id d\<rparr>"

text \<open>
  The policy checks \<open>update_domain\<close> makes before it looks at the name:
  \<open>update_domain\<close> on the stored domain and, when the values carry a
  tenant_id, \<open>delete_domain\<close> on the stored domain and
  \<open>create_domain\<close> in the new tenant.
\<close>

definition update_domain_authorised ::
  "env \<Rightarrow> request_context \<Rightarrow> nat \<Rightarrow> domain \<Rightarrow> domain_values \<Rightarrow> bool" where
  "update_domain_authorised env ctx domain_id d vals \<longleftrightarrow>
     policy_allows env ''update_domain'' ctx (domain_target domain_id d) \<and>
     (case v_tenant_id vals of
        None \<Rightarrow> True
      | Some new_tenant \<Rightarrow>
          policy_allows env ''delete_domain'' ctx (domain_target domain_id d) \<and>
          policy_allows env ''create_domain'' ctx
            (no_target\<lparr>t_domain_id := Some domain_id, t_tenant_id := Some new_tenant\<rparr>))"

definition update_domain ::
  "env \<Rightarrow> request_context \<Rightarrow> nat \<Rightarrow> domain_values \<Rightarrow> world \<Rightarrow> (error + domain) \<times> world" where
  "update_domain env ctx domain_id vals st =
     (case storage_get_domain st domain_id of
        Inl e \<Rightarrow> (Inl e, st)
      | Inr d \<Rightarrow>
      let tgt = domain_target domain_id d in
      case policy_check env ''update_domain'' ctx tgt of
        Inl e \<Rightarrow> (Inl e, st)
      | Inr _ \<Rightarrow>
      case (case v_tenant_id vals of
              None \<Rightarrow> Inr ()
            | Some new_tenant \<Rightarrow>
                (case policy_check env ''delete_domain'' ctx tgt of
                   Inl e \<Rightarrow> Inl e
                 | Inr _ \<Rightarrow>
                     policy_check env ''create_domain'' ctx
                       (no_target\<lparr>t_domain_id := Some domain_id,
                                  t_tenant_id := Some new_tenant\<rparr>))) of
        Inl e \<Rightarrow> (Inl e, st)
      | Inr _ \<Rightarrow>
      if (case v_name vals of None \<Rightarrow> False | Some n \<Rightarrow> n \<noteq> d_name d)
      then (Inl BadRequest, st)
      else
      case storage_update_domain st domain_id vals of
        (Inl e, st1) \<Rightarrow> (Inl e, st1)
      | (Inr d', st1) \<Rightarrow>
      case backend_call env (BUpdateDomain d') st1 of
        (Inl e, st2) \<Rightarrow> (Inl e, st2)
      | (Inr _, st2) \<Rightarrow> (Inr d', notify ''domain.update'' (PayDomain d') st2))"

subsection \<open>Record methods\<close>

definition record_target :: "nat \<Rightarrow> domain \<Rightarrow> rec \<Rightarrow> target" where
  "record_target domain_id d r =
     no_target\<lparr>t_domain_id := Some domain_id, t_domain_name := Some (d_name d),
               t_record_id := Some (r_id r), t_tenant_id := d_tenant_id d\<rparr>"

definition new_record_target :: "nat \<Rightarrow> domain \<Rightarrow> string \<Rightarrow> target" where
  "new_record_target domain_id d name =
     no_target\<lparr>t_domain_id := Some domain_id, t_domain_name := Some (d_name d),
               t_record_name := Some name, t_tenant_id := d_tenant_id d\<rparr>"

definition create_record ::
  "env \<Rightarrow> request_context \<Rightarrow> nat \<Rightarrow> record_values \<Rightarrow> world \<Rightarrow> (error + rec) \<times> world" where
  "create_record env ctx domain_id vals st =
     (case storage_get_domain st domain_id of
        Inl e \<Rightarrow> (Inl e, st)
      | Inr d \<Rightarrow>
      case rv_name vals of
        None \<Rightarrow> (Inl (KeyError ''name''), st)
      | Some name \<Rightarrow>
      case policy_check env ''create_record'' ctx (new_record_target domain_id d name) of
        Inl e \<Rightarrow> (Inl e, st)
      | Inr _ \<Rightarrow>
      if \<not> endswith name (d_name d) then (Inl BadRequest, st)
      else
      case storage_create_record st domain_id vals of
        (Inl e, st1) \<Rightarrow> (Inl e, st1)
      | (Inr r, st1) \<Rightarrow>
      case backend_call env (BCreateRecord d r) st1 of
        (Inl e, st2) \<Rightarrow> (Inl e, st2)
      | (Inr _, st2) \<Rightarrow> (Inr r, notify ''record.create'' (PayRecord r) st2))"

definition get_record ::
  "env \<Rightarrow> request_context \<Rightarrow> nat \<Rightarrow> nat \<Rightarrow> world \<Rightarrow> (error + rec) \<times> world" where
  "get_record env ctx domain_id record_id st =
     (case storage_get_domain st domain_id of
        Inl e \<Rightarrow> (Inl e, st)
      | Inr d \<Rightarrow>
      case storage_get_record st record_id of
        Inl e \<Rightarrow> (Inl e, st)
      | Inr r \<Rightarrow>
      if d_id d \<noteq> r_domain_id r then (Inl RecordNotFound, st)
      else
      case policy_check env ''get_record'' ctx (record_target domain_id d r) of
        Inl e \<Rightarrow> (Inl e, st)
      | Inr _ \<Rightarrow> (Inr r, st))"

definition update_record ::
  "env \<Rightarrow> request_context \<Rightarrow> nat \<Rightarrow> nat \<Rightarrow> record_values \<Rightarrow> world \<Rightarrow> (error + rec) \<times> world" where
  "update_record env ctx domain_id record_id vals st =
     (case storage_get_domain st domain_id of
        Inl e \<Rightarrow> (Inl e, st)
      | Inr d \<Rightarrow>
      case storage_get_record st record_id of
        Inl e \<Rightarrow> (Inl e, st)
      | Inr r \<Rightarrow>
      if d_id d \<noteq> r_domain_id r then (Inl RecordNotFound, st)
      else
      case policy_check env ''update_record'' ctx (record_target domain_id d r) of
        Inl e \<Rightarrow> (Inl e, st)
      | Inr _ \<Rightarrow>
      if (case rv_name vals of None \<Rightarrow> False | Some n \<Rightarrow> \<not> endswith n (d_name d))
      then (Inl BadRequest, st)
      else
      case storage_update_record st record_id vals of
        (Inl e, st1) \<Rightarrow> (Inl e, st1)
      | (Inr r', st1) \<Rightarrow>
      case backend_call env (BUpdateRecord d r') st1 of
        (Inl e, st2) \<Rightarrow> (Inl e, st2)
      | (Inr _, st2) \<Rightarrow> (Inr r', notify ''record.update'' (PayRecord r') st2))"

definition delete_record ::
  "env \<Rightarrow> request_context \<Rightarrow> nat \<Rightarrow> nat \<Rightarrow> world \<Rightarrow> (error + rec) \<times> world" where
  "delete_record env ctx domain_id record_id st =
     (case storage_get_domain st domain_id of
        Inl e \<Rightarrow> (Inl e, st)
      | Inr d \<Rightarrow>
      case storage_get_record st record_id of
        Inl e \<Rightarrow> (Inl e, st)
      | Inr r \<Rightarrow>
      if d_id d \<noteq> r_domain_id r then (Inl RecordNotFound, st)
      else
      case policy_check env ''delete_record'' ctx (record_target domain_id d r) of
        Inl e \<Rightarrow> (Inl e, st)
      | Inr _ \<Rightarrow>
      case backend_call env (BDeleteRecord d r) st of
        (Inl e, st1) \<Rightarrow> (Inl e, st1)
      | (Inr _, st1) \<Rightarrow>
          storage_delete_record (notify ''record.delete'' (PayRecord r) st1) record_id)"

subsection \<open>Notification dispatch\<close>

text \<open>
  A loaded handler: its canonical name, the event types it declares, and what its
  \<open>process_notification\<close> does with an event type and a payload, of which the
  dispatcher only sees whether it raises (\<open>Some\<close> the exception's text).
\<close>

record handler =
  h_canonical_name :: string
  h_event_types :: "string list"
  h_process_notification :: "string \<Rightarrow> pyval \<Rightarrow> string option"

text \<open>An inbound notification: a dictionary that may lack either key.\<close>

record notification =
  n_event_type :: "string option"
  n_payload :: "pyval option"

text \<open>One entry per call of a handler's \<open>process_notification\<close>: who, and with what.\<close>

type_synonym invocation = "string \<times> string \<times> pyval"

definition get_handler_event_types :: "handler list \<Rightarrow> string set" where
  "get_handler_event_types hs =
     fold (\<lambda>h event_types. fold insert (h_event_types h) event_types) hs {}"

definition process_notification_for_handler ::
  "handler \<Rightarrow> notification \<Rightarrow> invocation list \<Rightarrow> (error + unit) \<times> invocation list" where
  "process_notification_for_handler h n calls =
     (case n_event_type n of
        None \<Rightarrow> (Inl (KeyError ''event_type''), calls)
      | Some event_type \<Rightarrow>
      case n_payload n of
        None \<Rightarrow> (Inl (KeyError ''payload''), calls)
      | Some p \<Rightarrow>
      if event_type \<in> set (h_event_types h) then
        (let calls' = calls @ [(h_canonical_name h, event_type, p)] in
         case h_process_notification h event_type p of
           Some msg \<Rightarrow> (Inl (HandlerError msg), calls')
         | None \<Rightarrow> (Inr (), calls'))
      else (Inr (), calls))"

fun process_handlers ::
  "handler list \<Rightarrow> notification \<Rightarrow> invocation list \<Rightarrow> (error + unit) \<times> invocation list" where
  "process_handlers [] n calls = (Inr (), calls)"
| "process_handlers (h # hs) n calls =
     (case process_notification_for_handler h n calls of
        (Inl e, calls') \<Rightarrow> (Inl e, calls')
      | (Inr _, calls') \<Rightarrow> process_handlers hs n calls')"

definition process_notification ::
  "handler list \<Rightarrow> notification \<Rightarrow> (error + unit) \<times> invocation list" where
  "process_notification hs n =
     (if (case n_event_type n of
            None \<Rightarrow> False
          | Some event_type \<Rightarrow> event_type \<in> get_handler_event_types hs)
      then process_handlers hs n []
      else (Inr (), []))"

subsection \<open>The specification's wording of subdomain resolution\<close>

text \<open>
  The candidate ancestor names of a domain name, nearest first: the labels from
  offset \<open>i\<close> on, joined by dots, for \<open>i = 1 .. len(labels) - 1\<close>.
\<close>

definition ancestor_names :: "string \<Rightarrow> string list" where
  "ancestor_names domain_name =
     (let labels = split CHR ''.'' domain_name
      in map (\<lambda>i. join ''.'' (drop i labels)) [1..<length labels])"

text \<open>The first of a list of names under which Storage holds a domain.\<close>

fun first_match :: "world \<Rightarrow> string list \<Rightarrow> domain option" where
  "first_match st [] = None"
| "first_match st (n # ns) =
     (case find (\<lambda>d. d_name d = n) (domains st) of
        Some d \<Rightarrow> Some d
      | None \<Rightarrow> first_match st ns)"

definition nearest_ancestor :: "world \<Rightarrow> string \<Rightarrow> domain option" where
  "nearest_ancestor st domain_name = first_match st (ancestor_names domain_name)"

subsection \<open>The calls a dispatch makes\<close>

text \<open>
  The handlers that declare an event type, in registration order; and, since a
  handler that raises ends the dispatch, the handlers of a list up to and
  including the first one that raises.
\<close>

definition interested :: "string \<Rightarrow> handler list \<Rightarrow> handler list" where
  "interested event_type hs = filter (\<lambda>h. event_type \<in> set (h_event_types h)) hs"

fun upto_first_raise :: "string \<Rightarrow> pyval \<Rightarrow> handler list \<Rightarrow> handler list" where
  "upto_first_raise event_type p [] = []"
| "upto_first_raise event_type p (h # hs) =
     (case h_process_notification h event_type p of
        Some msg \<Rightarrow> [h]
      | None \<Rightarrow> h # upto_first_raise event_type p hs)"

definition invocation_of :: "string \<Rightarrow> pyval \<Rightarrow> handler \<Rightarrow> invocation" where
  "invocation_of event_type p h = (h_canonical_name h, event_type, p)"

subsection \<open>A small deployment, for concrete runs\<close>

text \<open>
  \<open>re.search\<close> for the patterns used here, which are made of ordinary
  characters and the dot: an ordinary character matches itself, the dot matches
  any character but a newline, and a match may start anywhere in the subject.
  The empty pattern matches every subject.
\<close>

fun match_here :: "string \<Rightarrow> string \<Rightarrow> bool" where
  "match_here [] s = True"
| "match_here (p # ps) [] = False"
| "match_here (p # ps) (c # cs) =
     ((if p = CHR ''.'' then c \<noteq> CHR 0x0A else p = c) \<and> match_here ps cs)"

fun search_dotted :: "string \<Rightarrow> string \<Rightarrow> bool" where
  "search_dotted pat [] = match_here pat []"
| "search_dotted pat (c # cs) = (match_here pat (c # cs) \<or> search_dotted pat cs)"

text \<open>
  An owner-or-admin policy: an admin may do anything; anyone else may act on
  targets of their own tenant, but may neither use blacklisted names nor ping.
\<close>

definition owner_or_admin :: "string \<Rightarrow> request_context \<Rightarrow> target \<Rightarrow> bool" where
  "owner_or_admin rule ctx tgt \<longleftrightarrow>
     ctx_is_admin ctx \<or>
     (rule \<noteq> ''use_blacklisted_domain'' \<and> rule \<noteq> ''diagnostics_ping'' \<and>
      (t_tenant_id tgt = None \<or> t_tenant_id tgt = Some (ctx_tenant_id ctx)))"

definition backend_never_raises :: "backend_call \<Rightarrow> string option" where
  "backend_never_raises c = None"

definition ping_ok :: "request_context \<Rightarrow> ping_outcome" where
  "ping_ok ctx = Returned (PDict [(''status'', PBool True)])"

definition ping_down :: "request_context \<Rightarrow> ping_outcome" where
  "ping_down ctx = RaisedException ''connection refused''"

definition ex_env :: env where
  "ex_env = \<lparr>host = ''central-1'', domain_name_blacklist = [''arpa.''],
             re_search = search_dotted, policy_allows = owner_or_admin,
             backend_raises = backend_never_raises,
             backend_ping = ping_ok, storage_ping = ping_ok\<rparr>"

definition ex_env_backend_down :: env where
  "ex_env_backend_down = ex_env\<lparr>backend_ping := ping_down\<rparr>"

definition ex_env_empty_pattern :: env where
  "ex_env_empty_pattern = ex_env\<lparr>domain_name_blacklist := ['''', ''arpa.'']\<rparr>"

definition ctx_a :: request_context where
  "ctx_a = \<lparr>ctx_tenant_id = ''tenant-a'', ctx_is_admin = False\<rparr>"

definition ctx_b :: request_context where
  "ctx_b = \<lparr>ctx_tenant_id = ''tenant-b'', ctx_is_admin = False\<rparr>"

definition ctx_admin :: request_context where
  "ctx_admin = \<lparr>ctx_tenant_id = ''ops'', ctx_is_admin = True\<rparr>"

definition example_com :: domain where
  "example_com = \<lparr>d_id = 1, d_name = ''example.com.'', d_email = Some ''root@example.com'',
                   d_tenant_id = Some ''tenant-a'', d_parent_domain_id = None\<rparr>"

definition other_org :: domain where
  "other_org = \<lparr>d_id = 2, d_name = ''other.org.'', d_email = Some ''root@other.org'',
                 d_tenant_id = Some ''tenant-b'', d_parent_domain_id = None\<rparr>"

definition www_example_com :: rec where
  "www_example_com = \<lparr>r_id = 3, r_domain_id = 1, r_name = ''www.example.com.'',
                       r_type = Some ''A'', r_data = Some ''192.0.2.1''\<rparr>"

definition ns1 :: server where
  "ns1 = \<lparr>s_id = 4, s_name = ''ns1.example.net.''\<rparr>"

text \<open>A record of example.com. whose stored name lies outside the zone.\<close>

definition stray_record :: rec where
  "stray_record = \<lparr>r_id = 5, r_domain_id = 1, r_name = ''mail.elsewhere.net.'',
                    r_type = Some ''A'', r_data = Some ''192.0.2.5''\<rparr>"

definition ex_world :: world where
  "ex_world = \<lparr>domains = [example_com, other_org],
               recs = [www_example_com, stray_record],
               servers = [ns1], next_id = 6, backend_calls = [], notifications = []\<rparr>"

definition ex_world_no_servers :: world where
  "ex_world_no_servers = ex_world\<lparr>servers := []\<rparr>"

definition new_domain_values :: "string \<Rightarrow> domain_values" where
  "new_domain_values n = \<lparr>v_name = Some n, v_email = Some ''hostmaster@example.com'',
                          v_tenant_id = None, v_parent_domain_id = None\<rparr>"

definition new_record_values :: "string \<Rightarrow> record_values" where
  "new_record_values n = \<lparr>rv_name = Some n, rv_type = Some ''A'', rv_data = Some ''192.0.2.7''\<rparr>"

definition data_only_values :: record_values where
  "data_only_values = \<lparr>rv_name = None, rv_type = None, rv_data = Some ''192.0.2.9''\<rparr>"

definition instance_created :: notification where
  "instance_created = \<lparr>n_event_type = Some ''compute.instance.create.end'',
                        n_payload = Some (PDict [(''instance_id'', PStr ''i-1'')])\<rparr>"

definition instance_exists :: notification where
  "instance_exists = \<lparr>n_event_type = Some ''compute.instance.exists'',
                       n_payload = Some (PDict [(''instance_id'', PStr ''i-1'')])\<rparr>"

definition handler_ok :: "string \<Rightarrow> pyval \<Rightarrow> string option" where
  "handler_ok event_type p = None"

definition handler_fails :: "string \<Rightarrow> pyval \<Rightarrow> string option" where
  "handler_fails event_type p = Some ''no such domain''"

definition nova_handler :: handler where
  "nova_handler = \<lparr>h_canonical_name = ''nova_fixed'',
                    h_event_types = [''compute.instance.create.end'',
                                     ''compute.instance.delete.start''],
                    h_process_notification = handler_ok\<rparr>"

definition quantum_handler :: handler where
  "quantum_handler = \<lparr>h_canonical_name = ''quantum_floatingip'',
                       h_event_types = [''floatingip.update.end''],
                       h_process_notification = handler_ok\<rparr>"

definition audit_handler :: handler where
  "audit_handler = \<lparr>h_canonical_name = ''audit'',
                     h_event_types = [''compute.instance.create.end''],
                     h_process_notification = handler_ok\<rparr>"

definition broken_handler :: handler where
  "broken_handler = \<lparr>h_canonical_name = ''broken'',
                      h_event_types = [''compute.instance.create.end''],
                      h_process_notification = handler_fails\<rparr>"

section \<open>Properties\<close>

subsection \<open>Splitting and joining\<close>

text \<open>Joining the pieces of a split with the separator gives the string back.\<close>

lemma split_not_Nil [simp]: "split sep s \<noteq> []"
  by (induction s) (auto split: list.splits)

lemma join_split: "join [sep] (split sep s) = s"
proof (induction s)
  case Nil
  then show ?case by simp
next
  case (Cons c cs)
  show ?case
  proof (cases "c = sep")
    case True
    obtain w ws where "split sep cs = w # ws" by (cases "split sep cs") auto
    with True Cons show ?thesis by simp
  next
    case False
    obtain w ws where s: "split sep cs = w # ws" by (cases "split sep cs") auto
    with False Cons show ?thesis by (cases ws) auto
  qed
qed

subsection \<open>Storage and collaborators\<close>

lemma matches_name [simp]:
  "matches (empty_criterion\<lparr>c_name := Some n\<rparr>) = (\<lambda>d. d_name d = n)"
  by (auto simp: matches_def empty_criterion_def fun_eq_iff)

lemma storage_find_domain_by_name:
  "storage_find_domain st (empty_criterion\<lparr>c_name := Some n\<rparr>) =
     (case find (\<lambda>d. d_name d = n) (domains st) of
        None \<Rightarrow> Inl DomainNotFound | Some d \<Rightarrow> Inr d)"
  by (simp add: storage_find_domain_def)


lemma storage_update_record_found:
  "storage_get_record st record_id = Inr r \<Longrightarrow>
   storage_update_record st record_id vals =
     (Inr (apply_record_values vals r),
      st\<lparr>recs := map (\<lambda>x. if r_id x = record_id then apply_record_values vals r else x)
                     (recs st)\<rparr>)"
  by (simp add: storage_update_record_def Let_def)

subsection \<open>Subdomain resolution follows the specification's wording\<close>

lemma is_subdomain_loop_first_match:
  "is_subdomain_loop st labels i =
     Inr (first_match st (map (\<lambda>j. join ''.'' (drop j labels)) [i..<length labels]))"
proof (induction st labels i rule: is_subdomain_loop.induct)
  case (1 st labels i)
  show ?case
  proof (cases "i < length labels")
    case False
    then show ?thesis by (simp add: is_subdomain_loop.simps [of st labels i])
  next
    case True
    then have upt: "[i..<length labels] = i # [i + 1..<length labels]"
      by (simp add: upt_conv_Cons)
    show ?thesis
    proof (cases "find (\<lambda>d. d_name d = join ''.'' (drop i labels)) (domains st)")
      case None
      with True 1 show ?thesis
        by (subst is_subdomain_loop.simps) (simp add: upt storage_find_domain_by_name)
    next
      case (Some d)
      with True show ?thesis
        by (subst is_subdomain_loop.simps) (simp add: upt storage_find_domain_by_name)
    qed
  qed
qed

lemma is_subdomain_nearest:
  "is_subdomain st ctx name = Inr (nearest_ancestor st name)"
  by (simp add: is_subdomain_def nearest_ancestor_def ancestor_names_def Let_def
      is_subdomain_loop_first_match)





lemma blacklist_loop_no_match:
  "\<forall>b \<in> set bs. \<not> re_search env b name \<Longrightarrow> blacklist_loop env bs name = PBool False"
  by (induction bs) auto

subsection \<open>Ping\<close>

text \<open>
  What ping does by design. The policy check stands before the two try blocks, so
  a context that is denied \<open>diagnostics_ping\<close> gets Forbidden. The try
  blocks catch Exception only, so any other BaseException of an endpoint leaves
  ping. Otherwise ping returns: an endpoint's Exception becomes the entry with
  status False and the exception's text, a returned value is the entry itself, the
  two entries are computed independently, and the overall status is true exactly
  when both entries are truthy.
\<close>

lemma ping_denied:
  "\<not> policy_allows env ''diagnostics_ping'' ctx no_target \<Longrightarrow> ping env ctx = Inl Forbidden"
  by (simp add: ping_def policy_check_def)

lemma ping_backend_base_exception:
  assumes "policy_allows env ''diagnostics_ping'' ctx no_target"
    and "backend_ping env ctx = RaisedBaseException m"
  shows "ping env ctx = Inl (Uncaught m)"
  using assms by (simp add: ping_def policy_check_def)

lemma ping_returns:
  assumes "policy_allows env ''diagnostics_ping'' ctx no_target"
    and "try_ping (backend_ping env ctx) = Inr b"
    and "try_ping (storage_ping env ctx) = Inr s"
  shows "ping env ctx =
           Inr \<lparr>pr_host = host env, pr_status = (truthy b \<and> truthy s),
                pr_backend = b, pr_storage = s\<rparr>"
  using assms by (simp add: ping_def policy_check_def Let_def)

text \<open>
  The entry built from an Exception is a dictionary with two keys, hence truthy:
  whenever the backend's ping raises an Exception, the overall status is the
  truthiness of the storage entry, and it is True even when both pings raise.
\<close>

lemma failed_status_truthy: "truthy (failed_status msg)"
  by (simp add: failed_status_def)

lemma ping_status_after_backend_exception:
  assumes "policy_allows env ''diagnostics_ping'' ctx no_target"
    and "backend_ping env ctx = RaisedException e"
    and "try_ping (storage_ping env ctx) = Inr s"
  shows "ping env ctx =
           Inr \<lparr>pr_host = host env, pr_status = truthy s,
                pr_backend = PDict [(''status'', PBool False), (''message'', PStr e)],
                pr_storage = s\<rparr>"
  using assms ping_returns [of env ctx "failed_status e" s]
  by (simp add: failed_status_truthy) (simp add: failed_status_def)

lemma ping_status_after_both_exceptions:
  assumes "policy_allows env ''diagnostics_ping'' ctx no_target"
    and "backend_ping env ctx = RaisedException e"
    and "storage_ping env ctx = RaisedException e'"
  shows "\<exists>r. ping env ctx = Inr r \<and> pr_status r"
  using assms ping_status_after_backend_exception [of env ctx e "failed_status e'"]
  by (simp add: failed_status_truthy)

text \<open>
  C1 does not hold on the code. The claim is that, when the backend driver's ping
  raises, the backend entry is the mapping with status False and the overall
  status is false. On the code the overall status is computed from the truth
  values of the two entries, not of their status fields, and the entry built from
  the exception is a non-empty dictionary. An admin, who is granted
  \<open>diagnostics_ping\<close>, pings while the backend driver's ping raises
  'connection refused' and Storage's ping returns a mapping with status True: the
  backend entry has status False, the storage entry is Storage's answer, and the
  overall status is True.
\<close>

theorem ping_status_true_after_backend_failure:
  "policy_allows ex_env_backend_down ''diagnostics_ping'' ctx_admin no_target \<and>
   backend_ping ex_env_backend_down ctx_admin = RaisedException ''connection refused'' \<and>
   storage_ping ex_env_backend_down ctx_admin = Returned (PDict [(''status'', PBool True)]) \<and>
   ping ex_env_backend_down ctx_admin =
     Inr \<lparr>pr_host = ''central-1'', pr_status = True,
          pr_backend = PDict [(''status'', PBool False), (''message'', PStr ''connection refused'')],
          pr_storage = PDict [(''status'', PBool True)]\<rparr>"
  by code_simp

subsection \<open>Records addressed through the wrong domain\<close>

text \<open>
  C3. Let Storage hold a record R and a domain D, with R's domain_id different
  from D's id. Then get_record, update_record and delete_record, called with D's
  id and R's id, each fail with RecordNotFound and leave the world as it was: no
  record is returned, nothing is written, no backend call is made and nothing is
  notified.
\<close>

theorem record_of_another_domain:
  assumes "storage_get_domain st (d_id D) = Inr D"
    and "storage_get_record st (r_id R) = Inr R"
    and "r_domain_id R \<noteq> d_id D"
  shows "get_record env ctx (d_id D) (r_id R) st = (Inl RecordNotFound, st)
       \<and> update_record env ctx (d_id D) (r_id R) vals st = (Inl RecordNotFound, st)
       \<and> delete_record env ctx (d_id D) (r_id R) st = (Inl RecordNotFound, st)"
  using assms by (auto simp: get_record_def update_record_def delete_record_def)

text \<open>The record www.example.com. (of example.com.) addressed through other.org.\<close>

theorem record_of_another_domain_witness:
  "get_record ex_env ctx_b 2 3 ex_world = (Inl RecordNotFound, ex_world)
   \<and> update_record ex_env ctx_b 2 3 data_only_values ex_world = (Inl RecordNotFound, ex_world)
   \<and> delete_record ex_env ctx_b 2 3 ex_world = (Inl RecordNotFound, ex_world)"
proof -
  have d: "storage_get_domain ex_world (d_id other_org) = Inr other_org" by code_simp
  have r: "storage_get_record ex_world (r_id www_example_com) = Inr www_example_com"
    by code_simp
  have ne: "r_domain_id www_example_com \<noteq> d_id other_org" by code_simp
  have ids: "d_id other_org = 2" "r_id www_example_com = 3"
    by (simp_all add: other_org_def www_example_com_def)
  from record_of_another_domain [OF d r ne, of ex_env ctx_b data_only_values]
  show ?thesis by (simp add: ids)
qed

subsection \<open>Renaming a domain\<close>

text \<open>
  C4, as the code has it. Let Storage hold a domain under the given id, and let
  the values carry a name different from the stored one. Then update_domain fails
  and leaves the world as it was (no Storage update, no backend call, no
  notification). The failure is BadRequest when the caller passes the policy
  checks that come first, and Forbidden when one of them denies.
\<close>

theorem update_domain_rename:
  assumes "storage_get_domain st domain_id = Inr d"
    and "v_name vals = Some n"
    and "n \<noteq> d_name d"
  shows "snd (update_domain env ctx domain_id vals st) = st
       \<and> (update_domain_authorised env ctx domain_id d vals \<longrightarrow>
            fst (update_domain env ctx domain_id vals st) = Inl BadRequest)
       \<and> (\<not> update_domain_authorised env ctx domain_id d vals \<longrightarrow>
            fst (update_domain env ctx domain_id vals st) = Inl Forbidden)"
  using assms
  by (auto simp: update_domain_def update_domain_authorised_def policy_check_def Let_def
      split: option.splits)

text \<open>The owner of example.com. tries to rename it.\<close>

theorem update_domain_rename_witness:
  "update_domain ex_env ctx_a 1 (new_domain_values ''renamed.com.'') ex_world
     = (Inl BadRequest, ex_world)"
proof -
  have d: "storage_get_domain ex_world 1 = Inr example_com" by code_simp
  have n: "v_name (new_domain_values ''renamed.com.'') = Some ''renamed.com.''"
    by (simp add: new_domain_values_def)
  have ne: "''renamed.com.'' \<noteq> d_name example_com" by (simp add: example_com_def)
  have au: "update_domain_authorised ex_env ctx_a 1 example_com (new_domain_values ''renamed.com.'')"
    by code_simp
  from update_domain_rename [OF d n ne, of ex_env ctx_a] au show ?thesis
    by (simp add: prod_eq_iff)
qed

text \<open>
  C4 as stated fails for a caller the policy denies: another tenant's attempt to
  rename example.com. is answered with Forbidden, not BadRequest.
\<close>

theorem update_domain_rename_counterexample:
  "storage_get_domain ex_world 1 = Inr example_com \<and>
   v_name (new_domain_values ''renamed.com.'') = Some ''renamed.com.'' \<and>
   ''renamed.com.'' \<noteq> d_name example_com \<and>
   update_domain ex_env ctx_b 1 (new_domain_values ''renamed.com.'') ex_world
     = (Inl Forbidden, ex_world)"
  by code_simp

subsection \<open>Creating a domain under an existing one\<close>




subsection \<open>Creating a domain without servers\<close>

text \<open>
  C5. Let the values carry a name, the caller be granted \<open>create_domain\<close>
  for it, no configured blacklist pattern match the name, and the ancestor that
  subdomain resolution finds, if any, belong to the caller's tenant. If Storage
  holds no server, create_domain fails with NoServersConfigured and leaves the
  world as it was: no domain is written, no backend call is made, nothing is
  notified.
\<close>

theorem create_domain_no_servers:
  assumes "v_name vals = Some name"
    and "policy_allows env ''create_domain'' ctx
           (no_target\<lparr>t_tenant_id := Some (ctx_tenant_id ctx), t_domain_name := Some name\<rparr>)"
    and "\<forall>b \<in> set (domain_name_blacklist env). \<not> re_search env b name"
    and "\<forall>p. is_subdomain st ctx name = Inr (Some p) \<longrightarrow> d_tenant_id p = Some (ctx_tenant_id ctx)"
    and "servers st = []"
  shows "create_domain env ctx vals st = (Inl NoServersConfigured, st)"
proof -
  have bl: "is_blacklisted_domain_name env ctx name = PBool False"
    using assms(3) by (simp add: is_blacklisted_domain_name_def blacklist_loop_no_match)
  show ?thesis
    using assms(1,2,4,5) bl
    by (auto simp: create_domain_def Let_def policy_check_def is_subdomain_nearest
        storage_get_servers_def split: option.splits)
qed

text \<open>tenant-a creates a.b.example.com. in a deployment without servers.\<close>

theorem create_domain_no_servers_witness:
  "servers ex_world_no_servers = [] \<and>
   create_domain ex_env ctx_a (new_domain_values ''a.b.example.com.'') ex_world_no_servers
     = (Inl NoServersConfigured, ex_world_no_servers)"
proof -
  have v: "v_name (new_domain_values ''a.b.example.com.'') = Some ''a.b.example.com.''"
    by (simp add: new_domain_values_def)
  have p: "policy_allows ex_env ''create_domain'' ctx_a
           (no_target\<lparr>t_tenant_id := Some (ctx_tenant_id ctx_a), t_domain_name := Some ''a.b.example.com.''\<rparr>)"
    by code_simp
  have b: "\<forall>b \<in> set (domain_name_blacklist ex_env). \<not> re_search ex_env b ''a.b.example.com.''"
    by code_simp
  have s: "is_subdomain ex_world_no_servers ctx_a ''a.b.example.com.'' = Inr (Some example_com)"
    by code_simp
  have t: "d_tenant_id example_com = Some (ctx_tenant_id ctx_a)" by code_simp
  have a: "\<forall>p. is_subdomain ex_world_no_servers ctx_a ''a.b.example.com.'' = Inr (Some p)
       \<longrightarrow> d_tenant_id p = Some (ctx_tenant_id ctx_a)"
    using s t by simp
  have e: "servers ex_world_no_servers = []" by code_simp
  from create_domain_no_servers [OF v p b a e] e show ?thesis by simp
qed

subsection \<open>Blacklisted names\<close>

text \<open>
  When a configured pattern matches the name and no configured pattern is the empty
  string, a caller who is not granted \<open>use_blacklisted_domain\<close> is refused
  with Forbidden and the world stays as it was; a caller who is granted it is
  treated exactly as if nothing were blacklisted.
\<close>

lemma blacklist_loop_match:
  "\<exists>b \<in> set bs. re_search env b name \<Longrightarrow>
   \<exists>b \<in> set bs. blacklist_loop env bs name = PStr b \<and> re_search env b name"
  by (induction bs) auto

lemma blacklisted_refused:
  assumes "v_name vals = Some name"
    and "\<exists>b \<in> set (domain_name_blacklist env). re_search env b name"
    and "[] \<notin> set (domain_name_blacklist env)"
    and "\<not> policy_allows env ''use_blacklisted_domain'' ctx no_target"
  shows "create_domain env ctx vals st = (Inl Forbidden, st)"
proof -
  from blacklist_loop_match [OF assms(2)] assms(3)
  have "truthy (is_blacklisted_domain_name env ctx name)"
    by (auto simp: is_blacklisted_domain_name_def)
  with assms(1,4) show ?thesis
    by (simp add: create_domain_def Let_def policy_check_def)
qed

lemma blacklisted_granted:
  assumes "policy_allows env ''use_blacklisted_domain'' ctx no_target"
  shows "create_domain env ctx vals st =
         create_domain (env\<lparr>domain_name_blacklist := []\<rparr>) ctx vals st"
proof -
  let ?env = "env\<lparr>domain_name_blacklist := []\<rparr>"
  have p: "policy_check ?env rule ctx tgt = policy_check env rule ctx tgt" for rule tgt
    by (simp add: policy_check_def)
  have b: "backend_call ?env c s = backend_call env c s" for c s
    by (simp add: backend_call_def)
  have bl: "is_blacklisted_domain_name ?env ctx name = PBool False" for name
    by (simp add: is_blacklisted_domain_name_def)
  have g: "policy_check env ''use_blacklisted_domain'' ctx no_target = Inr ()"
    using assms by (simp add: policy_check_def)
  show ?thesis
    by (auto simp: create_domain_def Let_def p b bl g
        split: option.splits sum.splits prod.splits if_splits)
qed

text \<open>
  C6 holds on the code only for patterns that are not empty. The blacklist test
  returns the matching pattern itself and create_domain tests its truth value, so
  a match by the empty pattern counts as no match, also when a later pattern
  matches as well. With the patterns '' and 'arpa.' configured, tenant-a, who is
  not granted \<open>use_blacklisted_domain\<close>, creates 4.3.in-addr.arpa.: the
  test returns '', the policy is never asked, and the domain is written to
  Storage. With 'arpa.' alone the same request is refused with Forbidden.
\<close>

theorem empty_pattern_passes_blacklist:
  "re_search ex_env_empty_pattern ''arpa.'' ''4.3.in-addr.arpa.'' \<and>
   \<not> policy_allows ex_env_empty_pattern ''use_blacklisted_domain'' ctx_a no_target \<and>
   is_blacklisted_domain_name ex_env_empty_pattern ctx_a ''4.3.in-addr.arpa.'' = PStr [] \<and>
   fst (create_domain ex_env_empty_pattern ctx_a (new_domain_values ''4.3.in-addr.arpa.'') ex_world)
     = Inr \<lparr>d_id = 6, d_name = ''4.3.in-addr.arpa.'', d_email = Some ''hostmaster@example.com'',
            d_tenant_id = Some ''tenant-a'', d_parent_domain_id = None\<rparr> \<and>
   map d_name (domains (snd (create_domain ex_env_empty_pattern ctx_a
        (new_domain_values ''4.3.in-addr.arpa.'') ex_world)))
     = [''example.com.'', ''other.org.'', ''4.3.in-addr.arpa.''] \<and>
   create_domain ex_env ctx_a (new_domain_values ''4.3.in-addr.arpa.'') ex_world
     = (Inl Forbidden, ex_world)"
  by code_simp

subsection \<open>Records stay inside their zone\<close>

lemma storage_create_record_named:
  "rv_name vals = Some name \<Longrightarrow>
   storage_create_record st domain_id vals =
     (Inr \<lparr>r_id = next_id st, r_domain_id = domain_id, r_name = name,
           r_type = rv_type vals, r_data = rv_data vals\<rparr>,
      st\<lparr>recs := recs st @ [\<lparr>r_id = next_id st, r_domain_id = domain_id, r_name = name,
           r_type = rv_type vals, r_data = rv_data vals\<rparr>], next_id := Suc (next_id st)\<rparr>)"
  by (simp add: storage_create_record_def Let_def)

lemma backend_call_cases:
  "backend_call env c st =
     (case backend_raises env c of Some msg \<Rightarrow> Inl (BackendError msg) | None \<Rightarrow> Inr (),
      st\<lparr>backend_calls := backend_calls st @ [c]\<rparr>)"
  by (simp add: backend_call_def Let_def split: option.splits)

text \<open>
  C7, as the code has it. Let Storage hold the domain D under the given id and let
  the values supply a record name. If the name does not end with D's name, then
  create_record by a caller granted \<open>create_record\<close>, and update_record
  of a stored record of D by a caller granted \<open>update_record\<close>, fail
  with BadRequest and leave the world as it was. If the name ends with D's name,
  neither method fails with BadRequest, and create_record by a caller granted
  \<open>create_record\<close> writes the new record to Storage.
\<close>

theorem record_containment:
  assumes "storage_get_domain st domain_id = Inr d"
    and "rv_name vals = Some name"
  shows "(\<not> endswith name (d_name d)
          \<and> policy_allows env ''create_record'' ctx (new_record_target domain_id d name)
        \<longrightarrow> create_record env ctx domain_id vals st = (Inl BadRequest, st))
     \<and> (\<not> endswith name (d_name d)
          \<and> storage_get_record st record_id = Inr r \<and> r_domain_id r = d_id d
          \<and> policy_allows env ''update_record'' ctx (record_target domain_id d r)
        \<longrightarrow> update_record env ctx domain_id record_id vals st = (Inl BadRequest, st))
     \<and> (endswith name (d_name d)
        \<longrightarrow> fst (create_record env ctx domain_id vals st) \<noteq> Inl BadRequest
          \<and> fst (update_record env ctx domain_id record_id vals st) \<noteq> Inl BadRequest)
     \<and> (endswith name (d_name d)
          \<and> policy_allows env ''create_record'' ctx (new_record_target domain_id d name)
        \<longrightarrow> recs (snd (create_record env ctx domain_id vals st)) =
              recs st @ [\<lparr>r_id = next_id st, r_domain_id = domain_id, r_name = name,
                           r_type = rv_type vals, r_data = rv_data vals\<rparr>])"
proof (intro conjI impI)
  assume "\<not> endswith name (d_name d)
          \<and> policy_allows env ''create_record'' ctx (new_record_target domain_id d name)"
  with assms show "create_record env ctx domain_id vals st = (Inl BadRequest, st)"
    by (simp add: create_record_def policy_check_def)
next
  assume "\<not> endswith name (d_name d)
          \<and> storage_get_record st record_id = Inr r \<and> r_domain_id r = d_id d
          \<and> policy_allows env ''update_record'' ctx (record_target domain_id d r)"
  with assms show "update_record env ctx domain_id record_id vals st = (Inl BadRequest, st)"
    by (simp add: update_record_def policy_check_def)
next
  assume e: "endswith name (d_name d)"
  with assms show "fst (create_record env ctx domain_id vals st) \<noteq> Inl BadRequest"
    by (simp add: create_record_def policy_check_def storage_create_record_named
        backend_call_cases split: option.splits)
  from assms e show "fst (update_record env ctx domain_id record_id vals st) \<noteq> Inl BadRequest"
    by (auto simp: update_record_def policy_check_def storage_update_record_found
        storage_get_record_def backend_call_cases split: option.splits sum.splits)
next
  assume "endswith name (d_name d)
          \<and> policy_allows env ''create_record'' ctx (new_record_target domain_id d name)"
  with assms show "recs (snd (create_record env ctx domain_id vals st)) =
              recs st @ [\<lparr>r_id = next_id st, r_domain_id = domain_id, r_name = name,
                           r_type = rv_type vals, r_data = rv_data vals\<rparr>]"
    by (simp add: create_record_def policy_check_def storage_create_record_named
        backend_call_cases notify_def split: option.splits)
qed

text \<open>
  Under example.com., its owner may not create or rename a record to
  www.other.com., and may create ftp.example.com.
\<close>

theorem record_containment_witness:
  "create_record ex_env ctx_a 1 (new_record_values ''www.other.com.'') ex_world
     = (Inl BadRequest, ex_world)
   \<and> update_record ex_env ctx_a 1 3 (new_record_values ''www.other.com.'') ex_world
     = (Inl BadRequest, ex_world)
   \<and> fst (create_record ex_env ctx_a 1 (new_record_values ''ftp.example.com.'') ex_world)
       \<noteq> Inl BadRequest
   \<and> recs (snd (create_record ex_env ctx_a 1 (new_record_values ''ftp.example.com.'') ex_world))
       = [www_example_com, stray_record,
          \<lparr>r_id = 6, r_domain_id = 1, r_name = ''ftp.example.com.'',
            r_type = Some ''A'', r_data = Some ''192.0.2.7''\<rparr>]"
proof -
  have d: "storage_get_domain ex_world 1 = Inr example_com" by code_simp
  have r: "storage_get_record ex_world 3 = Inr www_example_com" by code_simp
  have rd: "r_domain_id www_example_com = d_id example_com" by code_simp
  have n1: "rv_name (new_record_values ''www.other.com.'') = Some ''www.other.com.''"
    and n2: "rv_name (new_record_values ''ftp.example.com.'') = Some ''ftp.example.com.''"
    by (simp_all add: new_record_values_def)
  have out: "\<not> endswith ''www.other.com.'' (d_name example_com)" by code_simp
  have inside: "endswith ''ftp.example.com.'' (d_name example_com)" by code_simp
  have p1: "policy_allows ex_env ''create_record'' ctx_a
              (new_record_target 1 example_com ''www.other.com.'')" by code_simp
  have p2: "policy_allows ex_env ''update_record'' ctx_a
              (record_target 1 example_com www_example_com)" by code_simp
  have p3: "policy_allows ex_env ''create_record'' ctx_a
              (new_record_target 1 example_com ''ftp.example.com.'')" by code_simp
  have w: "recs ex_world = [www_example_com, stray_record]" "next_id ex_world = 6"
    "rv_type (new_record_values ''ftp.example.com.'') = Some ''A''"
    "rv_data (new_record_values ''ftp.example.com.'') = Some ''192.0.2.7''"
    by (simp_all add: ex_world_def new_record_values_def)
  from record_containment [OF d n1, of ex_env ctx_a 3 www_example_com] out r rd p1 p2
  have a: "create_record ex_env ctx_a 1 (new_record_values ''www.other.com.'') ex_world
             = (Inl BadRequest, ex_world)"
    and b: "update_record ex_env ctx_a 1 3 (new_record_values ''www.other.com.'') ex_world
             = (Inl BadRequest, ex_world)"
    by blast+
  from record_containment [OF d n2, of ex_env ctx_a 3 www_example_com] inside p3
  have c: "fst (create_record ex_env ctx_a 1 (new_record_values ''ftp.example.com.'') ex_world)
             \<noteq> Inl BadRequest"
    and e: "recs (snd (create_record ex_env ctx_a 1 (new_record_values ''ftp.example.com.'') ex_world))
       = recs ex_world @ [\<lparr>r_id = next_id ex_world, r_domain_id = 1, r_name = ''ftp.example.com.'',
            r_type = rv_type (new_record_values ''ftp.example.com.''),
            r_data = rv_data (new_record_values ''ftp.example.com.'')\<rparr>]"
    by blast+
  from a b c e show ?thesis by (simp add: w)
qed

text \<open>
  C7 as stated fails for a caller the policy denies: the policy check comes before
  the containment check, so another tenant's attempt to create www.other.com.
  under example.com. is answered with Forbidden, not BadRequest.
\<close>

theorem record_containment_counterexample:
  "storage_get_domain ex_world 1 = Inr example_com \<and>
   rv_name (new_record_values ''www.other.com.'') = Some ''www.other.com.'' \<and>
   endswith ''www.other.com.'' (d_name example_com) = False \<and>
   create_record ex_env ctx_b 1 (new_record_values ''www.other.com.'') ex_world
     = (Inl Forbidden, ex_world) \<and>
   update_record ex_env ctx_b 1 3 (new_record_values ''www.other.com.'') ex_world
     = (Inl Forbidden, ex_world)"
  by code_simp

subsection \<open>Updating a record without naming it\<close>

text \<open>
  C10, as the code has it. Let Storage hold the domain and the record, the record
  belonging to the domain, and let the values carry no name. Then update_record
  never fails with BadRequest, whatever the record's stored name is. If the caller
  is granted \<open>update_record\<close>, the update reaches Storage: the record is
  replaced by the one with the values applied (its name is kept), the backend is
  called with it, and it is returned unless the backend raises.
\<close>

theorem update_record_without_name:
  assumes "storage_get_domain st domain_id = Inr d"
    and "storage_get_record st record_id = Inr r"
    and "r_domain_id r = d_id d"
    and "rv_name vals = None"
  shows "fst (update_record env ctx domain_id record_id vals st) \<noteq> Inl BadRequest
     \<and> (policy_allows env ''update_record'' ctx (record_target domain_id d r) \<longrightarrow>
          recs (snd (update_record env ctx domain_id record_id vals st)) =
            map (\<lambda>x. if r_id x = record_id then apply_record_values vals r else x) (recs st)
          \<and> r_name (apply_record_values vals r) = r_name r
          \<and> backend_calls (snd (update_record env ctx domain_id record_id vals st)) =
              backend_calls st @ [BUpdateRecord d (apply_record_values vals r)]
          \<and> (backend_raises env (BUpdateRecord d (apply_record_values vals r)) = None \<longrightarrow>
               fst (update_record env ctx domain_id record_id vals st)
                 = Inr (apply_record_values vals r)))"
  using assms
  by (auto simp: update_record_def policy_check_def storage_update_record_found
      backend_call_cases notify_def apply_record_values_def split: option.splits)

text \<open>
  The stray record mail.elsewhere.net. of example.com. lies outside the zone; its
  data is updated all the same.
\<close>

theorem update_record_without_name_witness:
  "endswith (r_name stray_record) (d_name example_com) = False \<and>
   update_record ex_env ctx_a 1 5 data_only_values ex_world
     = (Inr (stray_record\<lparr>r_data := Some ''192.0.2.9''\<rparr>),
        snd (update_record ex_env ctx_a 1 5 data_only_values ex_world)) \<and>
   recs (snd (update_record ex_env ctx_a 1 5 data_only_values ex_world))
     = [www_example_com, stray_record\<lparr>r_data := Some ''192.0.2.9''\<rparr>]"
proof -
  have d: "storage_get_domain ex_world 1 = Inr example_com" by code_simp
  have r: "storage_get_record ex_world 5 = Inr stray_record" by code_simp
  have rd: "r_domain_id stray_record = d_id example_com" by code_simp
  have n: "rv_name data_only_values = None" by (simp add: data_only_values_def)
  have p: "policy_allows ex_env ''update_record'' ctx_a (record_target 1 example_com stray_record)"
    by code_simp
  have b: "backend_raises ex_env (BUpdateRecord example_com (apply_record_values data_only_values stray_record)) = None"
    by (simp add: ex_env_def backend_never_raises_def)
  have out: "endswith (r_name stray_record) (d_name example_com) = False" by code_simp
  have ap: "apply_record_values data_only_values stray_record = stray_record\<lparr>r_data := Some ''192.0.2.9''\<rparr>"
    by (simp add: apply_record_values_def data_only_values_def)
  have w: "map (\<lambda>x. if r_id x = 5 then apply_record_values data_only_values stray_record else x)
             (recs ex_world)
      = [www_example_com, stray_record\<lparr>r_data := Some ''192.0.2.9''\<rparr>]"
    by code_simp
  from update_record_without_name [OF d r rd n, of ex_env ctx_a] p b
  have "fst (update_record ex_env ctx_a 1 5 data_only_values ex_world)
          = Inr (apply_record_values data_only_values stray_record)"
    and "recs (snd (update_record ex_env ctx_a 1 5 data_only_values ex_world)) =
            map (\<lambda>x. if r_id x = 5 then apply_record_values data_only_values stray_record else x) (recs ex_world)"
    by blast+
  with out show ?thesis by (simp add: ap w prod_eq_iff)
qed

text \<open>
  C10 as stated fails for a caller the policy denies: the update does not proceed
  to Storage, the call is answered with Forbidden and the world stays as it was.
\<close>

theorem update_record_without_name_counterexample:
  "storage_get_domain ex_world 1 = Inr example_com \<and>
   storage_get_record ex_world 5 = Inr stray_record \<and>
   r_domain_id stray_record = d_id example_com \<and>
   rv_name data_only_values = None \<and>
   update_record ex_env ctx_b 1 5 data_only_values ex_world = (Inl Forbidden, ex_world)"
  by code_simp

subsection \<open>Notification dispatch\<close>

lemma fold_insert_set: "fold insert xs A = set xs \<union> A"
  by (induction xs arbitrary: A) auto

lemma fold_event_types:
  "fold (\<lambda>h event_types. fold insert (h_event_types h) event_types) hs A =
     (\<Union>h \<in> set hs. set (h_event_types h)) \<union> A"
  by (induction hs arbitrary: A) (auto simp: fold_insert_set)

lemma get_handler_event_types_union:
  "get_handler_event_types hs = (\<Union>h \<in> set hs. set (h_event_types h))"
  by (simp add: get_handler_event_types_def fold_event_types)

lemma interested_none:
  "event_type \<notin> (\<Union>h \<in> set hs. set (h_event_types h)) \<Longrightarrow> interested event_type hs = []"
  by (auto simp: interested_def filter_empty_conv)

lemma process_handlers_calls:
  assumes "n_event_type n = Some et" and "n_payload n = Some p"
  shows "snd (process_handlers hs n calls) =
           calls @ map (invocation_of et p) (upto_first_raise et p (interested et hs))"
  using assms
  by (induction hs arbitrary: calls)
    (auto simp: process_notification_for_handler_def interested_def invocation_of_def Let_def
      split: option.splits)

lemma process_handlers_all_return:
  assumes "n_event_type n = Some et" and "n_payload n = Some p"
    and "\<forall>h \<in> set (interested et hs). h_process_notification h et p = None"
  shows "process_handlers hs n calls = (Inr (), calls @ map (invocation_of et p) (interested et hs))"
  using assms
  by (induction hs arbitrary: calls)
    (auto simp: process_notification_for_handler_def interested_def invocation_of_def Let_def
      split: option.splits)

text \<open>
  C8, as the code has it, for a notification that carries an event type and a
  payload. If no loaded handler declares the event type, no handler is called. In
  every case the calls made are, in registration order, those of the handlers
  declaring the event type, up to and including the first whose
  \<open>process_notification\<close> raises; every call passes the notification's
  event type and payload. If none of them raises, each handler declaring the event
  type is called exactly once, in registration order, and the dispatch returns.
\<close>

theorem notification_dispatch:
  assumes "n_event_type n = Some et" and "n_payload n = Some p"
  shows "(et \<notin> (\<Union>h \<in> set hs. set (h_event_types h)) \<longrightarrow>
            process_notification hs n = (Inr (), []))
     \<and> snd (process_notification hs n) =
          map (invocation_of et p) (upto_first_raise et p (interested et hs))
     \<and> ((\<forall>h \<in> set (interested et hs). h_process_notification h et p = None) \<longrightarrow>
          process_notification hs n = (Inr (), map (invocation_of et p) (interested et hs)))"
proof (intro conjI impI)
  assume "et \<notin> (\<Union>h \<in> set hs. set (h_event_types h))"
  with assms show "process_notification hs n = (Inr (), [])"
    by (simp add: process_notification_def get_handler_event_types_union)
next
  show "snd (process_notification hs n) =
          map (invocation_of et p) (upto_first_raise et p (interested et hs))"
  proof (cases "et \<in> (\<Union>h \<in> set hs. set (h_event_types h))")
    case True
    with assms show ?thesis
      using process_handlers_calls [OF assms, of hs "[]"]
      by (simp add: process_notification_def get_handler_event_types_union)
  next
    case False
    with assms show ?thesis
      by (simp add: process_notification_def get_handler_event_types_union interested_none)
  qed
next
  assume ok: "\<forall>h \<in> set (interested et hs). h_process_notification h et p = None"
  show "process_notification hs n = (Inr (), map (invocation_of et p) (interested et hs))"
  proof (cases "et \<in> (\<Union>h \<in> set hs. set (h_event_types h))")
    case True
    with assms show ?thesis
      using process_handlers_all_return [OF assms ok, of "[]"]
      by (simp add: process_notification_def get_handler_event_types_union)
  next
    case False
    with assms show ?thesis
      by (simp add: process_notification_def get_handler_event_types_union interested_none)
  qed
qed

text \<open>
  Of three handlers, two declare compute.instance.create.end and are called in
  order; none declares compute.instance.exists.
\<close>

theorem notification_dispatch_witness:
  "process_notification [nova_handler, quantum_handler, audit_handler] instance_created
     = (Inr (), [(''nova_fixed'', ''compute.instance.create.end'', PDict [(''instance_id'', PStr ''i-1'')]),
                 (''audit'', ''compute.instance.create.end'', PDict [(''instance_id'', PStr ''i-1'')])])
   \<and> process_notification [nova_handler, quantum_handler, audit_handler] instance_exists
     = (Inr (), [])"
proof -
  let ?hs = "[nova_handler, quantum_handler, audit_handler]"
  let ?p = "PDict [(''instance_id'', PStr ''i-1'')]"
  have e1: "n_event_type instance_created = Some ''compute.instance.create.end''"
    and p1: "n_payload instance_created = Some ?p"
    and e2: "n_event_type instance_exists = Some ''compute.instance.exists''"
    and p2: "n_payload instance_exists = Some ?p"
    by (simp_all add: instance_created_def instance_exists_def)
  have ok: "\<forall>h \<in> set (interested ''compute.instance.create.end'' ?hs).
              h_process_notification h ''compute.instance.create.end'' ?p = None"
    by (simp add: interested_def nova_handler_def quantum_handler_def audit_handler_def
        handler_ok_def)
  have calls: "map (invocation_of ''compute.instance.create.end'' ?p)
                 (interested ''compute.instance.create.end'' ?hs)
     = [(''nova_fixed'', ''compute.instance.create.end'', ?p),
        (''audit'', ''compute.instance.create.end'', ?p)]"
    by (simp add: interested_def invocation_of_def nova_handler_def quantum_handler_def
        audit_handler_def)
  have none: "''compute.instance.exists'' \<notin> (\<Union>h \<in> set ?hs. set (h_event_types h))"
    by (simp add: nova_handler_def quantum_handler_def audit_handler_def)
  from notification_dispatch [OF e1 p1, of ?hs] ok calls
  have a: "process_notification ?hs instance_created
     = (Inr (), [(''nova_fixed'', ''compute.instance.create.end'', ?p),
                 (''audit'', ''compute.instance.create.end'', ?p)])"
    by simp
  from notification_dispatch [OF e2 p2, of ?hs] none
  have b: "process_notification ?hs instance_exists = (Inr (), [])"
    by blast
  from a b show ?thesis by simp
qed

text \<open>
  C8 as stated fails when a handler raises: the exception leaves the loop, and
  the handlers registered after it are not called although they declare the event
  type.
\<close>

theorem notification_dispatch_counterexample:
  "''compute.instance.create.end'' \<in> set (h_event_types nova_handler) \<and>
   process_notification [broken_handler, nova_handler] instance_created
     = (Inl (HandlerError ''no such domain''),
        [(''broken'', ''compute.instance.create.end'', PDict [(''instance_id'', PStr ''i-1'')])])"
  by code_simp

subsection \<open>Listing domains\<close>

lemma get_domains_granted:
  assumes "policy_allows env ''get_domains'' ctx (no_target\<lparr>t_tenant_id := Some (ctx_tenant_id ctx)\<rparr>)"
  shows "\<exists>ds. get_domains env ctx criterion st = (Inr ds, st)"
  using assms by (simp add: get_domains_def policy_check_def Let_def)

text \<open>
  C9. Whenever get_domains returns a list of domains: for a caller who is not
  admin it is what Storage yields for the supplied criterion (the empty one when
  none is supplied) with its tenant_id entry set to the caller's tenant_id,
  overriding a supplied value, so every domain returned is a stored domain of the
  caller's tenant; for an admin with no criterion supplied it is what Storage
  yields for the empty criterion, that is, all stored domains.
\<close>

theorem get_domains_scope:
  assumes "get_domains env ctx criterion st = (Inr ds, st')"
  shows "(\<not> ctx_is_admin ctx \<longrightarrow>
            ds = storage_get_domains st
                   ((case criterion of None \<Rightarrow> empty_criterion | Some c \<Rightarrow> c)
                      \<lparr>c_tenant_id := Some (ctx_tenant_id ctx)\<rparr>)
          \<and> (\<forall>d \<in> set ds. d \<in> set (domains st) \<and> d_tenant_id d = Some (ctx_tenant_id ctx)))
       \<and> (ctx_is_admin ctx \<and> criterion = None \<longrightarrow>
            ds = storage_get_domains st empty_criterion \<and> ds = domains st)"
  using assms
  by (auto simp: get_domains_def policy_check_def Let_def storage_get_domains_def matches_def
      empty_criterion_def split: if_splits)

text \<open>
  tenant-a asks for the domains of tenant-b and gets its own; the admin gets all.
\<close>

theorem get_domains_scope_witness:
  "get_domains ex_env ctx_a (Some \<lparr>c_name = None, c_tenant_id = Some ''tenant-b''\<rparr>) ex_world
     = (Inr [example_com], ex_world)
   \<and> [example_com] = storage_get_domains ex_world \<lparr>c_name = None, c_tenant_id = Some ''tenant-a''\<rparr>
   \<and> get_domains ex_env ctx_admin None ex_world = (Inr [example_com, other_org], ex_world)
   \<and> [example_com, other_org] = domains ex_world"
proof -
  have a: "get_domains ex_env ctx_a (Some \<lparr>c_name = None, c_tenant_id = Some ''tenant-b''\<rparr>) ex_world
     = (Inr [example_com], ex_world)"
    by code_simp
  have b: "get_domains ex_env ctx_admin None ex_world = (Inr [example_com, other_org], ex_world)"
    by code_simp
  have na: "\<not> ctx_is_admin ctx_a" and ad: "ctx_is_admin ctx_admin"
    and t: "ctx_tenant_id ctx_a = ''tenant-a''"
    by (simp_all add: ctx_a_def ctx_admin_def)
  from get_domains_scope [OF a] na t
  have c: "[example_com] = storage_get_domains ex_world \<lparr>c_name = None, c_tenant_id = Some ''tenant-a''\<rparr>"
    by simp
  from get_domains_scope [OF b] ad
  have d: "[example_com, other_org] = domains ex_world"
    by blast
  from a b c d show ?thesis by simp
qed

end
